theory Spec2Isabelle
  imports Main "HOL-Library.Sublist"
begin

section \<open>STIX objects\<close>

text \<open>
  The engine of \<^verbatim>\<open>lib/stix.py\<close> reads five properties of an object: \<^verbatim>\<open>type\<close>,
  \<^verbatim>\<open>id\<close>, \<^verbatim>\<open>source_ref\<close>, \<^verbatim>\<open>target_ref\<close> and \<^verbatim>\<open>name\<close>. STIX makes each of them a string.
  An object is modelled by the table of its properties, in document order, each value
  a string. A property whose JSON value is not a string (a list of external references,
  say) is carried as text: the engine never looks into it. An \<^verbatim>\<open>id\<close>, a \<^verbatim>\<open>type\<close> or a
  reference that is not a JSON string is outside the model.

  The same table stands for a raw JSON object (a Python dict, read with \<^verbatim>\<open>obj.get\<close>) and
  for an object built by \<^verbatim>\<open>stix2.parse\<close> (read with \<^verbatim>\<open>getattr\<close> and \<^verbatim>\<open>hasattr\<close>).
\<close>

type_synonym stix_obj = "(string \<times> string) list"

definition getattr :: "stix_obj \<Rightarrow> string \<Rightarrow> string \<Rightarrow> string" where
  "getattr obj name dflt = (case map_of obj name of Some v \<Rightarrow> v | None \<Rightarrow> dflt)"

definition hasattr :: "stix_obj \<Rightarrow> string \<Rightarrow> bool" where
  "hasattr obj name \<longleftrightarrow> map_of obj name \<noteq> None"

definition dict_get :: "stix_obj \<Rightarrow> string \<Rightarrow> string option" where
  "dict_get obj key = map_of obj key"

text \<open>Truth value of \<^verbatim>\<open>obj.get("id")\<close>: \<^verbatim>\<open>None\<close> and the empty string are false.\<close>

fun truthy :: "string option \<Rightarrow> bool" where
  "truthy None = False"
| "truthy (Some s) = (s \<noteq> [])"

datatype py_error = SystemExit nat | AttributeError | STIXError

section \<open>Object loader: \<^verbatim>\<open>load_stix_data\<close>\<close>

text \<open>
  What \<^verbatim>\<open>open\<close> followed by \<^verbatim>\<open>json.load\<close> gives for the path: the file is not there, its
  text is not JSON, or a JSON value. A JSON object is kept by its \<^verbatim>\<open>objects\<close> member
  (absent, or an array of objects); any other JSON value (array, string, number,
  \<^verbatim>\<open>true\<close>, \<^verbatim>\<open>false\<close>, \<^verbatim>\<open>null\<close>) is \<open>Json_other\<close>. An \<^verbatim>\<open>objects\<close> member that is not an
  array of objects is outside the model.
\<close>

datatype json_doc = Json_object "stix_obj list option" | Json_other

datatype file_read = FileNotFoundError | JSONDecodeError | Loaded json_doc

text \<open>\<^verbatim>\<open>raw_data.get("objects", [])\<close>: only a dict has \<^verbatim>\<open>get\<close>.\<close>

fun get_objects :: "json_doc \<Rightarrow> py_error + stix_obj list" where
  "get_objects (Json_object (Some objs)) = Inr objs"
| "get_objects (Json_object None) = Inr []"
| "get_objects Json_other = Inl AttributeError"

text \<open>
  The loop over the raw objects. \<open>parse\<close> is \<^verbatim>\<open>stix2.parse(obj, allow_custom=True)\<close>,
  a parameter: \<open>None\<close> when it raises, otherwise the table of the attributes of what
  it returns (a plain dict, which it returns for a type it does not know, has no
  attribute \<^verbatim>\<open>type\<close>).
\<close>

fun parse_loop ::
  "(stix_obj \<Rightarrow> stix_obj option) \<Rightarrow> stix_obj list \<Rightarrow> stix_obj list \<Rightarrow> nat \<Rightarrow> stix_obj list \<times> nat"
where
  "parse_loop parse [] parsed_objects skipped = (parsed_objects, skipped)"
| "parse_loop parse (obj # rest) parsed_objects skipped =
     (case parse obj of
        Some parsed \<Rightarrow>
          if hasattr parsed ''type''
          then parse_loop parse rest (parsed_objects @ [parsed]) skipped
          else parse_loop parse rest parsed_objects (skipped + 1)
      | None \<Rightarrow> parse_loop parse rest parsed_objects (skipped + 1))"

text \<open>
  The result pairs the returned list with the skip count that the function prints.
  \<^verbatim>\<open>sys.exit(1)\<close> is \<open>Inl (SystemExit 1)\<close>; an exception nobody catches is \<open>Inl\<close> too.
\<close>

definition load_stix_data ::
  "(stix_obj \<Rightarrow> stix_obj option) \<Rightarrow> file_read \<Rightarrow> py_error + (stix_obj list \<times> nat)"
where
  "load_stix_data parse file =
     (case file of
        FileNotFoundError \<Rightarrow> Inl (SystemExit 1)
      | JSONDecodeError \<Rightarrow> Inl (SystemExit 1)
      | Loaded raw_data \<Rightarrow>
          (case get_objects raw_data of
             Inl e \<Rightarrow> Inl e
           | Inr objs \<Rightarrow> Inr (parse_loop parse objs [] 0)))"

section \<open>Relationship resolver: \<^verbatim>\<open>get_related_objects\<close>\<close>

definition get_related_objects :: "stix_obj list \<Rightarrow> string \<Rightarrow> stix_obj list \<times> stix_obj list" where
  "get_related_objects objects source_id =
     (let relationships =
            [obj \<leftarrow> objects. getattr obj ''type'' '''' = ''relationship'' \<and>
                              getattr obj ''source_ref'' '''' = source_id];
          target_ids = set (map (\<lambda>rel. getattr rel ''target_ref'' '''') relationships);
          targets = [obj \<leftarrow> objects. getattr obj ''id'' '''' \<in> target_ids];
          reverse_relationships =
            [obj \<leftarrow> objects. getattr obj ''type'' '''' = ''relationship'' \<and>
                              getattr obj ''target_ref'' '''' = source_id];
          reverse_source_ids =
            set (map (\<lambda>rel. getattr rel ''source_ref'' '''') reverse_relationships);
          reverse_sources = [obj \<leftarrow> objects. getattr obj ''id'' '''' \<in> reverse_source_ids];
          all_relationships = relationships @ reverse_relationships;
          all_targets = targets @ reverse_sources
      in (all_relationships, all_targets))"

section \<open>Files\<close>

text \<open>
  A candidate file of the merge: its name, its bytes, and what
  \<^verbatim>\<open>ijson.items(f, "objects.item")\<close> does on those bytes: it yields objects in document
  order and then either stops or raises \<^verbatim>\<open>ijson.JSONError\<close>.
\<close>

datatype 'a gen = Stop | Raise_JSONError | Yield 'a "'a gen"

record stix_file =
  fname :: string
  content :: string
  stream :: "stix_obj gen"

text \<open>
  What a written file receives: the bytes of an existing file (\<^verbatim>\<open>shutil.copy2\<close>), or
  the pretty-printed serialisation of a fresh \<^verbatim>\<open>Bundle\<close> of the given objects. Both
  commands return the list of the files they wrote, each with what it received.
\<close>

datatype payload = File_copy stix_file | New_bundle "stix_obj list"

section \<open>Subgraph extractor: \<^verbatim>\<open>extract_all_apts\<close>\<close>

text \<open>\<^verbatim>\<open>.replace(" ", "_").replace("/", "_")\<close> on the group's name.\<close>

definition sanitize :: "string \<Rightarrow> string" where
  "sanitize s = map (\<lambda>c. if c = CHR '' '' \<or> c = CHR ''/'' then CHR ''_'' else c) s"

definition group_filename :: "stix_obj \<Rightarrow> string" where
  "group_filename apt_group =
     (let group_name = sanitize (getattr apt_group ''name'' ''unknown_apt'');
          group_id = getattr apt_group ''id'' ''unknown_id''
      in group_name @ ''_'' @ group_id @ ''.json'')"

text \<open>The loop that fills \<^verbatim>\<open>unique_objects\<close>, with \<^verbatim>\<open>seen_ids\<close> as a set.\<close>

fun extract_unique :: "stix_obj list \<Rightarrow> string set \<Rightarrow> stix_obj list \<Rightarrow> stix_obj list" where
  "extract_unique [] seen_ids unique_objects = unique_objects"
| "extract_unique (obj # rest) seen_ids unique_objects =
     (let obj_id = getattr obj ''id'' '''' in
      if obj_id \<noteq> '''' \<and> obj_id \<notin> seen_ids
      then extract_unique rest (insert obj_id seen_ids) (unique_objects @ [obj])
      else extract_unique rest seen_ids unique_objects)"

text \<open>One round of the loop over the intrusion sets, up to the call of \<^verbatim>\<open>Bundle\<close>.\<close>

definition group_objects :: "stix_obj list \<Rightarrow> stix_obj \<Rightarrow> stix_obj list" where
  "group_objects objects apt_group =
     (let group_id = getattr apt_group ''id'' ''unknown_id'';
          (relationships, targets) = get_related_objects objects group_id
      in extract_unique ([apt_group] @ relationships @ targets) {} [])"

text \<open>
  The loop over the intrusion sets; the result lists the files written, in order.
  \<open>bundle_raises\<close> tells whether \<^verbatim>\<open>Bundle(*unique_objects, allow_custom=True)\<close> raises
  (the group is then skipped), \<open>write_raises\<close> whether writing the named file does.
\<close>

fun extract_loop ::
  "(stix_obj list \<Rightarrow> bool) \<Rightarrow> (string \<Rightarrow> bool) \<Rightarrow> stix_obj list \<Rightarrow> stix_obj list
     \<Rightarrow> (string \<times> payload) list"
where
  "extract_loop bundle_raises write_raises objects [] = []"
| "extract_loop bundle_raises write_raises objects (apt_group # rest) =
     (let filename = group_filename apt_group;
          unique_objects = group_objects objects apt_group
      in if bundle_raises unique_objects
         then extract_loop bundle_raises write_raises objects rest
         else if write_raises filename
         then extract_loop bundle_raises write_raises objects rest
         else (filename, New_bundle unique_objects)
                # extract_loop bundle_raises write_raises objects rest)"

definition extract_all_apts ::
  "(stix_obj \<Rightarrow> stix_obj option) \<Rightarrow> (stix_obj list \<Rightarrow> bool) \<Rightarrow> (string \<Rightarrow> bool) \<Rightarrow> file_read
     \<Rightarrow> py_error + (string \<times> payload) list"
where
  "extract_all_apts parse bundle_raises write_raises file =
     (case load_stix_data parse file of
        Inl e \<Rightarrow> Inl e
      | Inr (objects, skipped) \<Rightarrow>
          (let intrusion_sets = [obj \<leftarrow> objects. getattr obj ''type'' '''' = ''intrusion-set'']
           in if intrusion_sets = [] then Inr []
              else Inr (extract_loop bundle_raises write_raises objects intrusion_sets)))"

section \<open>Streaming ingestor and merger\<close>

text \<open>
  \<^verbatim>\<open>directory.glob("*.json")\<close> without the file named like \<^verbatim>\<open>exclude_file\<close>. The
  directory is the list of its files in the order in which it enumerates them; the
  canonical file is given by its name, which is all that the source compares.
\<close>

definition get_stix_files :: "stix_file list \<Rightarrow> string \<Rightarrow> stix_file list" where
  "get_stix_files directory exclude_file =
     [f \<leftarrow> directory. suffix ''.json'' (fname f) \<and> fname f \<noteq> exclude_file]"

fun for_items :: "stix_obj gen \<Rightarrow> stix_obj list \<Rightarrow> nat \<Rightarrow> stix_obj list \<times> nat" where
  "for_items (Yield obj g) objects count = for_items g (objects @ [obj]) (count + 1)"
| "for_items Stop objects count = (objects, count)"
| "for_items Raise_JSONError objects count = (objects, count)"

definition load_stix_objects_streaming :: "stix_file \<Rightarrow> stix_obj list" where
  "load_stix_objects_streaming file_path = fst (for_items (stream file_path) [] 0)"

fun load_all :: "stix_file list \<Rightarrow> stix_obj list \<Rightarrow> stix_obj list" where
  "load_all [] all_objects = all_objects"
| "load_all (stix_file # rest) all_objects =
     load_all rest (all_objects @ load_stix_objects_streaming stix_file)"

fun merge_unique :: "stix_obj list \<Rightarrow> string option set \<Rightarrow> stix_obj list \<Rightarrow> stix_obj list" where
  "merge_unique [] seen_ids unique_objects = unique_objects"
| "merge_unique (obj # rest) seen_ids unique_objects =
     (let obj_id = dict_get obj ''id'' in
      if truthy obj_id \<and> obj_id \<notin> seen_ids
      then merge_unique rest (insert obj_id seen_ids) (unique_objects @ [obj])
      else merge_unique rest seen_ids unique_objects)"

text \<open>
  \<^verbatim>\<open>write_bundle\<close>. \<open>bundle_raises\<close> tells whether \<^verbatim>\<open>Bundle(objects=objects, allow_custom=True)\<close>
  raises on the given objects: it validates each of them. Nothing in the merge catches
  that exception, so the command ends with it and writes nothing.
\<close>

definition write_bundle ::
  "(stix_obj list \<Rightarrow> bool) \<Rightarrow> stix_obj list \<Rightarrow> string \<Rightarrow> py_error + (string \<times> payload) list"
where
  "write_bundle bundle_raises objects output_file =
     (if bundle_raises objects then Inl STIXError
      else Inr [(output_file, New_bundle objects)])"

text \<open>
  The merge. The result is the exception that ended it, or the list of the files
  written with what each received. Failures of the file system (in \<^verbatim>\<open>shutil.copy2\<close>, in
  the write) are not modelled.
\<close>

definition merge_all_stix_files ::
  "(stix_obj list \<Rightarrow> bool) \<Rightarrow> stix_file list \<Rightarrow> string \<Rightarrow> py_error + (string \<times> payload) list"
where
  "merge_all_stix_files bundle_raises stix_dir merged_file =
     (let stix_files = get_stix_files stix_dir merged_file in
      if stix_files = [] then Inr []
      else
        let all_objects = load_all stix_files [] in
        if length stix_files = 1 then Inr [(merged_file, File_copy (stix_files ! 0))]
        else write_bundle bundle_raises (merge_unique all_objects {} []) merged_file)"

section \<open>Reading the written files\<close>

text \<open>
  The bytes a written file ends up with; \<open>serialize\<close> stands for
  \<^verbatim>\<open>Bundle(...).serialize(pretty=True)\<close>.
\<close>

fun payload_bytes :: "(stix_obj list \<Rightarrow> string) \<Rightarrow> payload \<Rightarrow> string" where
  "payload_bytes serialize (File_copy f) = content f"
| "payload_bytes serialize (New_bundle objs) = serialize objs"

text \<open>
  The objects a written bundle file holds: those handed to \<^verbatim>\<open>Bundle\<close>, or, for a copy,
  those of the copied file as the ingestor reads them.
\<close>

fun payload_objects :: "payload \<Rightarrow> stix_obj list" where
  "payload_objects (File_copy f) = load_stix_objects_streaming f"
| "payload_objects (New_bundle objs) = objs"

section \<open>Specifications used in the proofs\<close>

text \<open>
  Both deduplication loops keep, in order, the first element of every admissible key
  that was not seen before.
\<close>

fun keep_first :: "('a \<Rightarrow> 'k) \<Rightarrow> ('k \<Rightarrow> bool) \<Rightarrow> 'a list \<Rightarrow> 'k set \<Rightarrow> 'a list" where
  "keep_first key ok [] seen = []"
| "keep_first key ok (x # xs) seen =
     (if ok (key x) \<and> key x \<notin> seen then x # keep_first key ok xs (insert (key x) seen)
      else keep_first key ok xs seen)"

text \<open>
  The resolver as section 4.2 of the specification words it: the related objects follow
  the order of the relationships that reference them. It is compared with
  \<open>get_related_objects\<close> below and used nowhere else.
\<close>

definition resolve_in_relationship_order ::
  "stix_obj list \<Rightarrow> string \<Rightarrow> stix_obj list \<times> stix_obj list"
where
  "resolve_in_relationship_order objects source_id =
     (let forward =
            [obj \<leftarrow> objects. getattr obj ''type'' '''' = ''relationship'' \<and>
                              getattr obj ''source_ref'' '''' = source_id];
          reverse =
            [obj \<leftarrow> objects. getattr obj ''type'' '''' = ''relationship'' \<and>
                              getattr obj ''target_ref'' '''' = source_id];
          resolved = (\<lambda>ref. [obj \<leftarrow> objects. getattr obj ''id'' '''' = ref])
      in (forward @ reverse,
          concat (map (\<lambda>rel. resolved (getattr rel ''target_ref'' '''')) forward) @
          concat (map (\<lambda>rel. resolved (getattr rel ''source_ref'' '''')) reverse)))"

section \<open>Example data\<close>

text \<open>
  Objects and files for the concrete instances below. They are abbreviations, so every
  statement that names them is a statement about the literal tables. The ids have the
  form that STIX asks for; \<open>ex_IS2'\<close> and \<open>ex_RS'\<close> are later versions of \<open>ex_IS2\<close> and
  \<open>ex_RS\<close> under the same ids, as \<open>ex_Y'\<close> is of \<open>ex_Y\<close>.
\<close>

abbreviation ex_IS1_id :: string where
  "ex_IS1_id \<equiv> ''intrusion-set--00000000-0000-4000-8000-000000000001''"

abbreviation ex_Y_id :: string where
  "ex_Y_id \<equiv> ''attack-pattern--00000000-0000-4000-8000-000000000042''"

abbreviation ex_G1_json :: string where
  "ex_G1_json \<equiv> ''G1_intrusion-set--00000000-0000-4000-8000-000000000001.json''"


abbreviation ex_G0_json :: string where
  "ex_G0_json \<equiv> ''G0_intrusion-set--5f3c9a2e-7b1d-4c68-9e04-2a6d8b1f3c70.json''"

abbreviation ex_IS1 :: stix_obj where
  "ex_IS1 \<equiv>
    [(''id'', ''intrusion-set--00000000-0000-4000-8000-000000000001''),
     (''type'', ''intrusion-set''),
     (''name'', ''G1'')]"



abbreviation ex_AP1 :: stix_obj where
  "ex_AP1 \<equiv>
    [(''id'', ''attack-pattern--00000000-0000-4000-8000-000000000011''),
     (''type'', ''attack-pattern''),
     (''name'', ''T1'')]"

abbreviation ex_AP2 :: stix_obj where
  "ex_AP2 \<equiv>
    [(''id'', ''attack-pattern--00000000-0000-4000-8000-000000000012''),
     (''type'', ''attack-pattern''),
     (''name'', ''T2'')]"

abbreviation ex_R1 :: stix_obj where
  "ex_R1 \<equiv>
    [(''id'', ''relationship--00000000-0000-4000-8000-000000000021''),
     (''type'', ''relationship''),
     (''source_ref'', ''intrusion-set--00000000-0000-4000-8000-000000000001''),
     (''target_ref'', ''attack-pattern--00000000-0000-4000-8000-000000000011''),
     (''relationship_type'', ''uses'')]"

abbreviation ex_R2 :: stix_obj where
  "ex_R2 \<equiv>
    [(''id'', ''relationship--00000000-0000-4000-8000-000000000022''),
     (''type'', ''relationship''),
     (''source_ref'', ''intrusion-set--00000000-0000-4000-8000-000000000001''),
     (''target_ref'', ''attack-pattern--00000000-0000-4000-8000-000000000012''),
     (''relationship_type'', ''uses'')]"

abbreviation ex_R3 :: stix_obj where
  "ex_R3 \<equiv>
    [(''id'', ''relationship--00000000-0000-4000-8000-000000000023''),
     (''type'', ''relationship''),
     (''source_ref'', ''intrusion-set--00000000-0000-4000-8000-000000000001''),
     (''target_ref'', ''attack-pattern--00000000-0000-4000-8000-000000000011''),
     (''relationship_type'', ''related-to'')]"




abbreviation ex_R0 :: stix_obj where
  "ex_R0 \<equiv>
    [(''id'', ''relationship--00000000-0000-4000-8000-000000000026''),
     (''type'', ''relationship'')]"

abbreviation ex_bad_C :: stix_obj where
  "ex_bad_C \<equiv>
    [(''id'', ''campaign--00000000-0000-4000-8000-000000000031''),
     (''type'', ''campaign''),
     (''name'', ''C9''),
     (''created'', ''yesterday'')]"

abbreviation ex_bad_AP :: stix_obj where
  "ex_bad_AP \<equiv>
    [(''id'', ''attack-pattern--00000000-0000-4000-8000-000000000019''),
     (''type'', ''attack-pattern''),
     (''name'', ''T9''),
     (''created'', ''yesterday'')]"

abbreviation ex_no_id :: stix_obj where
  "ex_no_id \<equiv>
    [(''type'', ''attack-pattern''),
     (''name'', ''T0'')]"

abbreviation ex_empty_id :: stix_obj where
  "ex_empty_id \<equiv>
    [(''id'', ''''),
     (''type'', ''attack-pattern''),
     (''name'', ''T0'')]"

abbreviation ex_raw_G0 :: stix_obj where
  "ex_raw_G0 \<equiv>
    [(''type'', ''intrusion-set''),
     (''name'', ''G0'')]"

abbreviation ex_G0 :: stix_obj where
  "ex_G0 \<equiv>
    [(''type'', ''intrusion-set''),
     (''id'', ''intrusion-set--5f3c9a2e-7b1d-4c68-9e04-2a6d8b1f3c70''),
     (''name'', ''G0'')]"

abbreviation ex_X :: stix_obj where
  "ex_X \<equiv>
    [(''id'', ''attack-pattern--00000000-0000-4000-8000-000000000041''),
     (''type'', ''attack-pattern''),
     (''name'', ''x'')]"

abbreviation ex_Y :: stix_obj where
  "ex_Y \<equiv>
    [(''id'', ''attack-pattern--00000000-0000-4000-8000-000000000042''),
     (''type'', ''attack-pattern''),
     (''name'', ''y from A'')]"

abbreviation ex_Y' :: stix_obj where
  "ex_Y' \<equiv>
    [(''id'', ''attack-pattern--00000000-0000-4000-8000-000000000042''),
     (''type'', ''attack-pattern''),
     (''name'', ''y from B''),
     (''description'', ''more'')]"

abbreviation ex_Z :: stix_obj where
  "ex_Z \<equiv>
    [(''id'', ''attack-pattern--00000000-0000-4000-8000-000000000043''),
     (''type'', ''attack-pattern''),
     (''name'', ''z'')]"

text \<open>
  \<open>ex_raw_G0\<close> is a group as a file may hold it, without an id, and \<open>ex_G0\<close> the object
  that \<^verbatim>\<open>stix2.parse\<close> makes of it: \<^verbatim>\<open>stix2\<close> gives an object that has no id a generated
  one.

  A \<^verbatim>\<open>Bundle\<close> and a write that raise on nothing:
\<close>

abbreviation never_raises :: "'a \<Rightarrow> bool" where
  "never_raises \<equiv> (\<lambda>_. False)"

text \<open>
  Each file with its bytes and with what \<^verbatim>\<open>ijson\<close> makes of them. The text of
  \<open>ex_file_cut\<close> ends inside its second object; \<open>ex_file_txt\<close> is not a \<^verbatim>\<open>*.json\<close>
  file.
\<close>

abbreviation ex_file_a :: stix_file where
  \<open>ex_file_a \<equiv>
     \<lparr>fname = ''a.json'',
      content = ''{"type": "bundle", "id": "bundle--00000000-0000-4000-8000-000000000051", "objects": [{"id": "attack-pattern--00000000-0000-4000-8000-000000000041", "type": "attack-pattern", "name": "x"}, {"id": "attack-pattern--00000000-0000-4000-8000-000000000042", "type": "attack-pattern", "name": "y from A"}]}'',
      stream = Yield ex_X (Yield ex_Y Stop)\<rparr>\<close>

abbreviation ex_file_b :: stix_file where
  \<open>ex_file_b \<equiv>
     \<lparr>fname = ''b.json'',
      content = ''{"type": "bundle", "id": "bundle--00000000-0000-4000-8000-000000000052", "objects": [{"id": "attack-pattern--00000000-0000-4000-8000-000000000042", "type": "attack-pattern", "name": "y from B", "description": "more"}, {"id": "attack-pattern--00000000-0000-4000-8000-000000000043", "type": "attack-pattern", "name": "z"}]}'',
      stream = Yield ex_Y' (Yield ex_Z Stop)\<rparr>\<close>

abbreviation ex_file_c :: stix_file where
  \<open>ex_file_c \<equiv>
     \<lparr>fname = ''c.json'',
      content = ''{"type": "bundle", "id": "bundle--00000000-0000-4000-8000-000000000054", "objects": [{"type": "attack-pattern", "name": "T0"}, {"id": "attack-pattern--00000000-0000-4000-8000-000000000043", "type": "attack-pattern", "name": "z"}]}'',
      stream = Yield ex_no_id (Yield ex_Z Stop)\<rparr>\<close>

abbreviation ex_file_dup :: stix_file where
  \<open>ex_file_dup \<equiv>
     \<lparr>fname = ''enterprise-attack.json'',
      content = ''{"type": "bundle", "id": "bundle--00000000-0000-4000-8000-000000000055", "objects": [{"id": "attack-pattern--00000000-0000-4000-8000-000000000042", "type": "attack-pattern", "name": "y from A"}, {"id": "attack-pattern--00000000-0000-4000-8000-000000000042", "type": "attack-pattern", "name": "y from B", "description": "more"}]}'',
      stream = Yield ex_Y (Yield ex_Y' Stop)\<rparr>\<close>

abbreviation ex_file_cut :: stix_file where
  \<open>ex_file_cut \<equiv>
     \<lparr>fname = ''cut.json'',
      content = ''{"type": "bundle", "id": "bundle--00000000-0000-4000-8000-000000000053", "objects": [{"id": "attack-pattern--00000000-0000-4000-8000-000000000041", "type": "attack-pattern", "name": "x"}, {"id": "attack-pattern--00000000-0000-4000-8000-000000000042", "type": "attack-pattern"'',
      stream = Yield ex_X Raise_JSONError\<rparr>\<close>

abbreviation ex_file_old :: stix_file where
  \<open>ex_file_old \<equiv>
     \<lparr>fname = ''stix_full.json'',
      content = ''{"type": "bundle", "id": "bundle--00000000-0000-4000-8000-000000000050", "objects": []}'',
      stream = Stop\<rparr>\<close>

abbreviation ex_file_txt :: stix_file where
  \<open>ex_file_txt \<equiv>
     \<lparr>fname = ''notes.txt'',
      content = ''not a bundle'',
      stream = Raise_JSONError\<rparr>\<close>

section \<open>The loader\<close>

lemma parse_loop_acc:
  "parse_loop parse objs acc k =
     (acc @ fst (parse_loop parse objs [] 0), k + snd (parse_loop parse objs [] 0))"
proof (induction objs arbitrary: acc k)
  case Nil
  show ?case by simp
next
  case (Cons obj objs)
  show ?case
  proof (cases "parse obj")
    case None
    then show ?thesis
      using Cons.IH[of acc "k + 1"] Cons.IH[of "[]" 1] by simp
  next
    case (Some p)
    then show ?thesis
      using Cons.IH[of "acc @ [p]" k] Cons.IH[of "[p]" 0]
            Cons.IH[of acc "k + 1"] Cons.IH[of "[]" 1] by simp
  qed
qed

lemma parse_loop_append:
  "parse_loop parse (xs @ ys) acc k =
     (case parse_loop parse xs acc k of (acc', k') \<Rightarrow> parse_loop parse ys acc' k')"
  by (induction xs arbitrary: acc k) (simp_all split: option.splits)

lemma parse_loop_all_typed:
  "map parse objs = map Some ps \<Longrightarrow> list_all (\<lambda>p. hasattr p ''type'') ps \<Longrightarrow>
   parse_loop parse objs acc k = (acc @ ps, k)"
proof (induction objs arbitrary: ps acc k)
  case Nil
  then show ?case by simp
next
  case (Cons obj objs)
  then obtain p ps' where ps: "ps = p # ps'" "parse obj = Some p" "map parse objs = map Some ps'"
    by (cases ps) auto
  with Cons.prems(2) have "hasattr p ''type''" "list_all (\<lambda>p. hasattr p ''type'') ps'"
    by simp_all
  then show ?case using Cons.IH[OF ps(3), of "acc @ [p]" k] ps by simp
qed

text \<open>
  C1, as amended. An object that fails strict typed parsing adds nothing to the list
  that \<open>load_stix_data\<close> returns and one to the skip count, whatever its raw type: the
  loader has no fallback to the raw property bag, also not for \<^verbatim>\<open>attack-pattern\<close>,
  \<^verbatim>\<open>campaign\<close> and \<^verbatim>\<open>intrusion-set\<close>. The objects before and after it are handled as
  they would be without it.
\<close>

theorem C1_failed_objects_skipped:
  assumes "parse obj = None"
    and "load_stix_data parse (Loaded (Json_object (Some pre))) = Inr (ps1, k1)"
    and "load_stix_data parse (Loaded (Json_object (Some post))) = Inr (ps2, k2)"
  shows "load_stix_data parse (Loaded (Json_object (Some (pre @ obj # post)))) =
           Inr (ps1 @ ps2, k1 + 1 + k2)"
proof -
  from assms(2) have pre: "parse_loop parse pre [] 0 = (ps1, k1)"
    by (simp add: load_stix_data_def)
  from assms(3) have post: "parse_loop parse post [] 0 = (ps2, k2)"
    by (simp add: load_stix_data_def)
  have "parse_loop parse (pre @ obj # post) [] 0 = parse_loop parse post ps1 (k1 + 1)"
    using assms(1) pre by (simp add: parse_loop_append)
  also have "\<dots> = (ps1 @ ps2, k1 + 1 + k2)"
    using parse_loop_acc[of parse post ps1 "k1 + 1"] post by simp
  finally show ?thesis by (simp add: load_stix_data_def)
qed

text \<open>
  The theorem at a bundle of an intrusion set that parses and a campaign that does not
  (its \<^verbatim>\<open>created\<close> is no timestamp): the campaign is skipped.
\<close>

theorem C1_failed_objects_skipped_witness:
  "load_stix_data (map_of [(ex_IS1, ex_IS1)])
     (Loaded (Json_object (Some ([ex_IS1] @ ex_bad_C # [])))) =
   Inr ([ex_IS1] @ [], 0 + 1 + 0)"
  by (rule C1_failed_objects_skipped) (simp_all add: load_stix_data_def hasattr_def)

text \<open>
  C1 as the specification states it fails. The \<^verbatim>\<open>created\<close> of the attack pattern below
  is no timestamp, so strict parsing raises (the parser's table has no entry for it);
  its raw \<^verbatim>\<open>type\<close> is \<^verbatim>\<open>attack-pattern\<close>, and still the loader returns the intrusion set
  only and counts one skip.
\<close>

theorem C1_fallback_counterexample:
  "map_of [(ex_IS1, ex_IS1)] ex_bad_AP = None \<and>
   dict_get ex_bad_AP ''type'' = Some ''attack-pattern'' \<and>
   load_stix_data (map_of [(ex_IS1, ex_IS1)])
     (Loaded (Json_object (Some [ex_bad_AP, ex_IS1]))) =
     Inr ([ex_IS1], 1)"
  by (simp add: load_stix_data_def hasattr_def dict_get_def)

text \<open>
  C7, as amended. \<open>load_stix_data\<close> ends the process with status 1 when the file is
  missing and when it is not valid JSON. On a file that holds a JSON object whose
  \<^verbatim>\<open>objects\<close> member is absent or an array of objects it always returns; when one of the
  objects fails typed parsing and every other object parses to a typed object, it
  returns all the others, in order, and counts exactly one skip.
\<close>

theorem C7_fatal_boundary:
  assumes "map parse pre = map Some pre'" and "map parse post = map Some post'"
    and "list_all (\<lambda>p. hasattr p ''type'') (pre' @ post')"
    and "parse obj = None"
  shows "load_stix_data parse FileNotFoundError = Inl (SystemExit 1) \<and>
         load_stix_data parse JSONDecodeError = Inl (SystemExit 1) \<and>
         (\<exists>r. load_stix_data parse (Loaded (Json_object member)) = Inr r) \<and>
         load_stix_data parse (Loaded (Json_object (Some (pre @ obj # post)))) =
           Inr (pre' @ post', 1)"
proof -
  from assms(3) have t: "list_all (\<lambda>p. hasattr p ''type'') pre'"
    "list_all (\<lambda>p. hasattr p ''type'') post'" by simp_all
  have "parse_loop parse (pre @ obj # post) [] 0 = parse_loop parse post pre' 1"
    using parse_loop_all_typed[OF assms(1) t(1), of "[]" 0] assms(4)
    by (simp add: parse_loop_append)
  also have "\<dots> = (pre' @ post', 1)"
    using parse_loop_all_typed[OF assms(2) t(2)] by simp
  finally have one: "load_stix_data parse (Loaded (Json_object (Some (pre @ obj # post)))) =
      Inr (pre' @ post', 1)"
    by (simp add: load_stix_data_def)
  have "\<exists>r. load_stix_data parse (Loaded (Json_object member)) = Inr r"
    by (cases member) (simp_all add: load_stix_data_def)
  with one show ?thesis by (simp add: load_stix_data_def)
qed

text \<open>
  The theorem at a bundle of three objects whose second one, a relationship without
  its references, does not parse.
\<close>

theorem C7_fatal_boundary_witness:
  "load_stix_data (map_of [(ex_IS1, ex_IS1), (ex_AP1, ex_AP1)])
     (Loaded (Json_object (Some [ex_IS1, ex_R0, ex_AP1]))) =
   Inr ([ex_IS1, ex_AP1], 1)"
  using C7_fatal_boundary
    [of "map_of [(ex_IS1, ex_IS1), (ex_AP1, ex_AP1)]"
        "[ex_IS1]" "[ex_IS1]" "[ex_AP1]" "[ex_AP1]" ex_R0 None]
  by (simp add: hasattr_def)

text \<open>
  C7 as stated fails in its "only if": a file that holds valid JSON which is not an
  object (an array, say) makes \<^verbatim>\<open>raw_data.get\<close> raise \<^verbatim>\<open>AttributeError\<close>, which nothing
  catches, so the process ends without a result although the file is there and is valid
  JSON.
\<close>

theorem C7_valid_json_counterexample:
  "load_stix_data Map.empty (Loaded Json_other) = Inl AttributeError"
  by (simp add: load_stix_data_def)

section \<open>The deduplication loops\<close>

lemma extract_unique_keep_first:
  "extract_unique xs seen acc =
     acc @ keep_first (\<lambda>obj. getattr obj ''id'' '''') (\<lambda>k. k \<noteq> '''') xs seen"
  by (induction xs arbitrary: seen acc) (simp_all add: Let_def)

lemma merge_unique_keep_first:
  "merge_unique xs seen acc = acc @ keep_first (\<lambda>obj. dict_get obj ''id'') truthy xs seen"
  by (induction xs arbitrary: seen acc) (simp_all add: Let_def)


lemma keep_first_ok: "x \<in> set (keep_first key ok xs seen) \<Longrightarrow> ok (key x) \<and> key x \<notin> seen"
  by (induction xs arbitrary: seen) (auto split: if_splits)

lemma keep_first_distinct: "distinct (map key (keep_first key ok xs seen))"
  by (induction xs arbitrary: seen) (auto dest: keep_first_ok)

lemma keep_first_none:
  "k \<in> seen \<or> \<not> ok k \<Longrightarrow> filter (\<lambda>obj. key obj = k) (keep_first key ok xs seen) = []"
  by (auto simp: filter_empty_conv dest: keep_first_ok)

lemma keep_first_skip:
  "k \<notin> key ` set pre \<Longrightarrow>
   filter (\<lambda>obj. key obj = k) (keep_first key ok (pre @ rest) seen) =
   filter (\<lambda>obj. key obj = k)
     (keep_first key ok rest (seen \<union> {key x | x. x \<in> set pre \<and> ok (key x)}))"
proof (induction pre arbitrary: seen)
  case Nil
  then show ?case by simp
next
  case (Cons a pre)
  have *: "insert (key a) seen \<union> {key x | x. x \<in> set pre \<and> ok (key x)} =
           seen \<union> {key x | x. x \<in> set (a # pre) \<and> ok (key x)}"
    if "ok (key a)" using that by auto
  have **: "seen \<union> {key x | x. x \<in> set pre \<and> ok (key x)} =
            seen \<union> {key x | x. x \<in> set (a # pre) \<and> ok (key x)}"
    if "\<not> ok (key a) \<or> key a \<in> seen" using that by auto
  from Cons.prems have k: "key a \<noteq> k" "k \<notin> key ` set pre" by auto
  show ?case
  proof (cases "ok (key a) \<and> key a \<notin> seen")
    case True
    then show ?thesis using Cons.IH[OF k(2), of "insert (key a) seen"] k(1) * by simp
  next
    case False
    then show ?thesis using Cons.IH[OF k(2), of seen] ** by auto
  qed
qed

lemma keep_first_first:
  assumes "key x = k" "ok k" "k \<notin> seen" "k \<notin> key ` set pre"
  shows "filter (\<lambda>obj. key obj = k) (keep_first key ok (pre @ x # post) seen) = [x]"
proof -
  let ?seen = "seen \<union> {key x | x. x \<in> set pre \<and> ok (key x)}"
  have "k \<notin> ?seen" using assms by auto
  then have "filter (\<lambda>obj. key obj = k) (keep_first key ok (x # post) ?seen) = [x]"
    using assms(1,2) keep_first_none[of k "insert k ?seen" ok key post] by simp
  then show ?thesis using keep_first_skip[OF assms(4)] by simp
qed

lemma first_with_key:
  "x \<in> set xs \<Longrightarrow>
   \<exists>pre y post. xs = pre @ y # post \<and> key y = key x \<and> key x \<notin> key ` set pre"
proof (induction xs)
  case Nil
  then show ?case by simp
next
  case (Cons a xs)
  show ?case
  proof (cases "key a = key x")
    case True
    then have "a # xs = [] @ a # xs \<and> key a = key x \<and> key x \<notin> key ` set []" by simp
    then show ?thesis by blast
  next
    case False
    with Cons.prems have "x \<in> set xs" by auto
    from Cons.IH[OF this] obtain pre y post where
      "xs = pre @ y # post" "key y = key x" "key x \<notin> key ` set pre" by blast
    with False have
      "a # xs = (a # pre) @ y # post \<and> key y = key x \<and> key x \<notin> key ` set (a # pre)"
      by auto
    then show ?thesis by blast
  qed
qed

lemma keep_first_one_per_key:
  assumes "x \<in> set xs" "ok (key x)" "key x \<notin> seen"
  shows "length (filter (\<lambda>obj. key obj = key x) (keep_first key ok xs seen)) = 1"
proof -
  from first_with_key[OF assms(1), of key]
  obtain pre y post where *: "xs = pre @ y # post" "key y = key x" "key x \<notin> key ` set pre"
    by blast
  from keep_first_first[of key y "key x" ok seen pre post] *(2,3) assms(2,3)
  show ?thesis by (simp add: *(1))
qed





section \<open>The resolver\<close>

text \<open>
  C2, as amended. \<open>get_related_objects\<close> returns the forward relationships followed by
  the reverse ones, each part in the order of the object list, and the forward targets
  followed by the reverse sources. Each part of the related objects is the object list
  filtered by the ids that the relationships reference: it follows the order of the
  object list, not the order of the relationships.
\<close>

theorem C2_resolver_order:
  "\<exists>forward reverse targets sources.
     get_related_objects objects source_id = (forward @ reverse, targets @ sources) \<and>
     forward = [obj \<leftarrow> objects. getattr obj ''type'' '''' = ''relationship'' \<and>
                                getattr obj ''source_ref'' '''' = source_id] \<and>
     reverse = [obj \<leftarrow> objects. getattr obj ''type'' '''' = ''relationship'' \<and>
                                getattr obj ''target_ref'' '''' = source_id] \<and>
     targets = [obj \<leftarrow> objects.
                  getattr obj ''id'' '''' \<in> (\<lambda>rel. getattr rel ''target_ref'' '''') ` set forward] \<and>
     sources = [obj \<leftarrow> objects.
                  getattr obj ''id'' '''' \<in> (\<lambda>rel. getattr rel ''source_ref'' '''') ` set reverse] \<and>
     subseq targets objects \<and> subseq sources objects"
  by (simp add: get_related_objects_def Let_def)

text \<open>
  C2 as stated fails on the order of the related objects. In the object list below
  \<open>ex_AP2\<close> stands before \<open>ex_AP1\<close>, and \<open>ex_R1\<close> (to \<open>ex_AP1\<close>) before \<open>ex_R2\<close> (to
  \<open>ex_AP2\<close>). The source returns the relationships as \<open>ex_R1, ex_R2\<close> and the related
  objects as \<open>ex_AP2, ex_AP1\<close>; in the order of their relationships they would be
  \<open>ex_AP1, ex_AP2\<close>.
\<close>

theorem C2_relationship_order_counterexample:
  "get_related_objects [ex_IS1, ex_AP2, ex_AP1, ex_R1, ex_R2] ex_IS1_id =
     ([ex_R1, ex_R2], [ex_AP2, ex_AP1]) \<and>
   resolve_in_relationship_order [ex_IS1, ex_AP2, ex_AP1, ex_R1, ex_R2] ex_IS1_id =
     ([ex_R1, ex_R2], [ex_AP1, ex_AP2])"
  by (simp add: get_related_objects_def resolve_in_relationship_order_def getattr_def Let_def)

section \<open>The extractor\<close>


lemma id_Some:
  "getattr obj ''id'' '''' \<noteq> '''' \<Longrightarrow> dict_get obj ''id'' = Some (getattr obj ''id'' '''')"
  by (auto simp: getattr_def dict_get_def split: option.splits)






lemma group_objects_keep_first:
  "group_objects objects g =
     keep_first (\<lambda>obj. getattr obj ''id'' '''') (\<lambda>k. k \<noteq> '''')
       ([g] @ fst (get_related_objects objects (getattr g ''id'' ''unknown_id''))
            @ snd (get_related_objects objects (getattr g ''id'' ''unknown_id''))) {}"
  by (simp add: group_objects_def extract_unique_keep_first split: prod.splits)

lemma group_objects_ids:
  "distinct (map (\<lambda>obj. dict_get obj ''id'') (group_objects objects g))"
proof -
  let ?r = "group_objects objects g"
  have d: "distinct (map (\<lambda>obj. getattr obj ''id'' '''') ?r)"
    unfolding group_objects_keep_first by (rule keep_first_distinct)
  have "\<forall>obj \<in> set ?r. getattr obj ''id'' '''' \<noteq> ''''"
    unfolding group_objects_keep_first by (auto dest: keep_first_ok)
  then have "map (\<lambda>obj. dict_get obj ''id'') ?r = map (\<lambda>obj. Some (getattr obj ''id'' '''')) ?r"
    by (auto simp: id_Some)
  also have "\<dots> = map Some (map (\<lambda>obj. getattr obj ''id'' '''') ?r)" by simp
  finally show ?thesis using d by (simp add: distinct_map del: map_map)
qed


lemma extract_loop_entries:
  "(n, p) \<in> set (extract_loop br wr objects groups) \<Longrightarrow>
   \<exists>g. g \<in> set groups \<and> n = group_filename g \<and> p = New_bundle (group_objects objects g)"
  by (induction groups) (auto simp: Let_def split: if_splits)

lemma extract_loop_writes:
  "g \<in> set groups \<Longrightarrow> \<not> br (group_objects objects g) \<Longrightarrow> \<not> wr (group_filename g) \<Longrightarrow>
   (group_filename g, New_bundle (group_objects objects g))
     \<in> set (extract_loop br wr objects groups)"
  by (induction groups) (auto simp: Let_def)

lemma extract_entries:
  assumes "extract_all_apts parse br wr file = Inr written" "(n, p) \<in> set written"
  shows "\<exists>objects g. p = New_bundle (group_objects objects g)"
proof -
  from assms(1) obtain objects where
    w: "written = [] \<or> written = extract_loop br wr objects
          [obj \<leftarrow> objects. getattr obj ''type'' '''' = ''intrusion-set'']"
    by (auto simp: extract_all_apts_def Let_def split: sum.splits prod.splits if_splits)
  with assms(2) extract_loop_entries show ?thesis by fastforce
qed



lemma extract_all_apts_loaded:
  "load_stix_data parse file = Inr (objects, skipped) \<Longrightarrow>
   extract_all_apts parse br wr file =
     Inr (extract_loop br wr objects
            [obj \<leftarrow> objects. getattr obj ''type'' '''' = ''intrusion-set''])"
  by (simp add: extract_all_apts_def Let_def)

lemma extract_all_apts_writes:
  assumes "load_stix_data parse file = Inr (objects, skipped)"
    and "g \<in> set objects" and "getattr g ''type'' '''' = ''intrusion-set''"
    and "\<not> br (group_objects objects g)" and "\<not> wr (group_filename g)"
    and "extract_all_apts parse br wr file = Inr written"
  shows "(group_filename g, New_bundle (group_objects objects g)) \<in> set written"
proof -
  have "g \<in> set [obj \<leftarrow> objects. getattr obj ''type'' '''' = ''intrusion-set'']"
    using assms(2,3) by simp
  then have "(group_filename g, New_bundle (group_objects objects g))
      \<in> set (extract_loop br wr objects
               [obj \<leftarrow> objects. getattr obj ''type'' '''' = ''intrusion-set''])"
    using assms(4,5) by (rule extract_loop_writes)
  then show ?thesis
    using assms(6) by (simp add: extract_all_apts_loaded[OF assms(1)])
qed

lemma group_objects_have_id:
  "x \<in> set (group_objects objects g) \<Longrightarrow> getattr x ''id'' '''' \<noteq> ''''"
  unfolding group_objects_keep_first by (drule keep_first_ok) simp

lemma group_objects_head:
  "getattr g ''id'' '''' \<noteq> '''' \<Longrightarrow> \<exists>rest. group_objects objects g = g # rest"
  by (simp add: group_objects_keep_first)

lemma intrusion_set_typed:
  "getattr g ''type'' '''' = ''intrusion-set'' \<Longrightarrow> hasattr g ''type''"
  by (auto simp: getattr_def hasattr_def split: option.splits)

lemma parse_loop_member:
  assumes "raw \<in> set raws" and "parse raw = Some g" and "hasattr g ''type''"
  shows "g \<in> set (fst (parse_loop parse raws [] 0))"
proof -
  from assms(1) obtain pre post where s: "raws = pre @ raw # post"
    by (auto simp: in_set_conv_decomp)
  obtain a k where p: "parse_loop parse pre [] 0 = (a, k)" by (cases "parse_loop parse pre [] 0")
  have "parse_loop parse raws [] 0 = parse_loop parse post (a @ [g]) k"
    using assms(2,3) p by (simp add: s parse_loop_append)
  then show ?thesis
    using parse_loop_acc[of parse post "a @ [g]" k] by simp
qed

lemma load_stix_data_member:
  assumes "load_stix_data parse (Loaded (Json_object (Some raws))) = Inr (objects, skipped)"
    and "raw \<in> set raws" and "parse raw = Some g" and "hasattr g ''type''"
  shows "g \<in> set objects"
proof -
  from assms(1) have "objects = fst (parse_loop parse raws [] 0)"
    by (simp add: load_stix_data_def)
  with parse_loop_member[of raw raws parse g] assms(2-4) show ?thesis by simp
qed







section \<open>The ingestor and the merger\<close>

lemma for_items_yields:
  "e = Stop \<or> e = Raise_JSONError \<Longrightarrow>
   for_items (foldr Yield xs e) objs n = (objs @ xs, n + length xs)"
  by (induction xs arbitrary: objs n) auto

lemma load_all_concat:
  "load_all files acc = acc @ concat (map load_stix_objects_streaming files)"
  by (induction files arbitrary: acc) simp_all

lemma merge_none:
  "get_stix_files stix_dir merged_file = [] \<Longrightarrow>
   merge_all_stix_files br stix_dir merged_file = Inr []"
  by (simp add: merge_all_stix_files_def)

lemma merge_one:
  "get_stix_files stix_dir merged_file = [f] \<Longrightarrow>
   merge_all_stix_files br stix_dir merged_file = Inr [(merged_file, File_copy f)]"
  by (simp add: merge_all_stix_files_def)

lemma merge_many:
  "length (get_stix_files stix_dir merged_file) \<noteq> 1 \<Longrightarrow>
   get_stix_files stix_dir merged_file \<noteq> [] \<Longrightarrow>
   merge_all_stix_files br stix_dir merged_file =
     write_bundle br
       (keep_first (\<lambda>obj. dict_get obj ''id'') truthy
          (concat (map load_stix_objects_streaming (get_stix_files stix_dir merged_file))) {})
       merged_file"
  by (simp add: merge_all_stix_files_def Let_def merge_unique_keep_first load_all_concat)

lemma merge_many_written:
  assumes "length (get_stix_files stix_dir merged_file) \<noteq> 1"
    and "merge_all_stix_files br stix_dir merged_file = Inr written"
    and "(n, p) \<in> set written"
  shows "p = New_bundle (keep_first (\<lambda>obj. dict_get obj ''id'') truthy
          (concat (map load_stix_objects_streaming (get_stix_files stix_dir merged_file))) {})"
proof (cases "get_stix_files stix_dir merged_file = []")
  case True
  with assms(2,3) show ?thesis by (simp add: merge_none)
next
  case False
  from merge_many[OF assms(1) False, of br] assms(2,3) show ?thesis
    by (auto simp: write_bundle_def split: if_splits)
qed

text \<open>
  C4. When the directory holds exactly one candidate file \<open>f\<close> (a \<^verbatim>\<open>*.json\<close> file not
  named like the canonical file), \<open>merge_all_stix_files\<close> ends normally, writes the
  canonical file and nothing else, and the bytes it receives are the bytes of \<open>f\<close>,
  whatever \<^verbatim>\<open>Bundle\<close> and the serialiser would do: the file is copied, not written from
  parsed objects.
\<close>

theorem C4_single_file_copied:
  assumes "get_stix_files stix_dir merged_file = [f]"
  shows "\<exists>written.
           merge_all_stix_files bundle_raises stix_dir merged_file = Inr written \<and>
           map (\<lambda>(n, p). (n, payload_bytes serialize p)) written = [(merged_file, content f)]"
  using assms by (simp add: merge_one)

text \<open>
  The theorem at a directory with a text file, one bundle and the canonical file of an
  earlier run.
\<close>

theorem C4_single_file_copied_witness:
  "get_stix_files [ex_file_txt, ex_file_a, ex_file_old] ''stix_full.json'' = [ex_file_a] \<and>
   (\<forall>bundle_raises serialize. \<exists>written.
      merge_all_stix_files bundle_raises [ex_file_txt, ex_file_a, ex_file_old]
        ''stix_full.json'' = Inr written \<and>
      map (\<lambda>(n, p). (n, payload_bytes serialize p)) written =
        [(''stix_full.json'', content ex_file_a)])"
proof -
  have c: "get_stix_files [ex_file_txt, ex_file_a, ex_file_old] ''stix_full.json'' = [ex_file_a]"
    by (simp add: get_stix_files_def suffix_to_prefix)
  show ?thesis using c C4_single_file_copied[OF c] by simp
qed



text \<open>
  C8. When \<^verbatim>\<open>ijson\<close> yields the objects \<open>objs\<close> of a candidate file and then raises
  \<^verbatim>\<open>JSONError\<close>, \<open>load_stix_objects_streaming\<close> returns exactly \<open>objs\<close>, and the merge goes
  on reading: the objects it collects are those of the files before, \<open>objs\<close>, and those
  of the files after. With other candidates around it then hands the survivors of the
  deduplication of all of them to \<^verbatim>\<open>write_bundle\<close>, which writes the merged bundle unless
  \<^verbatim>\<open>Bundle\<close> raises on them; alone, the file is copied.
\<close>

theorem C8_partial_stream_kept:
  assumes "stream f = foldr Yield objs Raise_JSONError"
    and "get_stix_files stix_dir merged_file = before @ f # after"
  shows "load_stix_objects_streaming f = objs \<and>
         load_all (get_stix_files stix_dir merged_file) [] =
           concat (map load_stix_objects_streaming before) @ objs @
           concat (map load_stix_objects_streaming after) \<and>
         (\<exists>survivors.
            survivors = merge_unique
              (concat (map load_stix_objects_streaming before) @ objs @
               concat (map load_stix_objects_streaming after)) {} [] \<and>
            merge_all_stix_files bundle_raises stix_dir merged_file =
              (if before @ after = [] then Inr [(merged_file, File_copy f)]
               else if bundle_raises survivors then Inl STIXError
               else Inr [(merged_file, New_bundle survivors)]))"
proof -
  have l: "load_stix_objects_streaming f = objs"
    using assms(1) by (simp add: load_stix_objects_streaming_def for_items_yields)
  have a: "load_all (get_stix_files stix_dir merged_file) [] =
           concat (map load_stix_objects_streaming before) @ objs @
           concat (map load_stix_objects_streaming after)"
    by (simp add: assms(2) load_all_concat l)
  have "merge_all_stix_files bundle_raises stix_dir merged_file =
          (if before @ after = [] then Inr [(merged_file, File_copy f)]
           else if bundle_raises (merge_unique
              (concat (map load_stix_objects_streaming before) @ objs @
               concat (map load_stix_objects_streaming after)) {} []) then Inl STIXError
           else Inr [(merged_file, New_bundle (merge_unique
              (concat (map load_stix_objects_streaming before) @ objs @
               concat (map load_stix_objects_streaming after)) {} []))])"
  proof (cases "before @ after = []")
    case True
    then show ?thesis using assms(2) by (simp add: merge_one)
  next
    case False
    then have "length (get_stix_files stix_dir merged_file) \<noteq> 1"
      "get_stix_files stix_dir merged_file \<noteq> []"
      using assms(2) by (cases before; cases after; simp)+
    from merge_many[OF this, of bundle_raises] False l show ?thesis
      by (simp add: assms(2) merge_unique_keep_first write_bundle_def)
  qed
  with l a show ?thesis by blast
qed

text \<open>
  The theorem at a file cut off inside its second object, followed by a sound file, and
  a \<^verbatim>\<open>Bundle\<close> that accepts the survivors: the first object of the cut file and the
  objects of the sound file are merged.
\<close>

theorem C8_partial_stream_kept_witness:
  "load_stix_objects_streaming ex_file_cut = [ex_X] \<and>
   load_all (get_stix_files [ex_file_cut, ex_file_b, ex_file_old] ''stix_full.json'') [] =
     [ex_X, ex_Y', ex_Z] \<and>
   merge_all_stix_files never_raises [ex_file_cut, ex_file_b, ex_file_old] ''stix_full.json'' =
     Inr [(''stix_full.json'', New_bundle [ex_X, ex_Y', ex_Z])]"
proof -
  have g: "get_stix_files [ex_file_cut, ex_file_b, ex_file_old] ''stix_full.json'' =
             [] @ ex_file_cut # [ex_file_b]"
    by (simp add: get_stix_files_def suffix_to_prefix)
  have s: "stream ex_file_cut = foldr Yield [ex_X] Raise_JSONError"
    by simp
  show ?thesis
    using C8_partial_stream_kept[OF s g, of never_raises]
    by (simp add: load_stix_objects_streaming_def dict_get_def)
qed

section \<open>The bundles written\<close>

text \<open>
  C3, as amended. No two objects share an id in any bundle that \<open>extract_all_apts\<close>
  writes, nor in the merged bundle that \<open>merge_all_stix_files\<close> builds from two or more
  candidate files. An object with a non-empty id that the resolver returns for a group,
  through however many relationships, is represented in that group's objects exactly
  once. (A single candidate file is copied as it is; nothing is said about it.)
\<close>

theorem C3_unique_ids:
  "(extract_all_apts parse bundle_raises write_raises file = Inr written \<and> (n, p) \<in> set written
      \<longrightarrow> distinct (map (\<lambda>obj. dict_get obj ''id'') (payload_objects p))) \<and>
   (length (get_stix_files stix_dir merged_file) \<noteq> 1 \<and>
    merge_all_stix_files bundle_raises' stix_dir merged_file = Inr written' \<and>
    (n', p') \<in> set written'
      \<longrightarrow> distinct (map (\<lambda>obj. dict_get obj ''id'') (payload_objects p'))) \<and>
   (obj \<in> set (snd (get_related_objects objects (getattr apt_group ''id'' ''unknown_id''))) \<and>
    getattr obj ''id'' '''' \<noteq> ''''
      \<longrightarrow> length [x \<leftarrow> group_objects objects apt_group.
                    getattr x ''id'' '''' = getattr obj ''id'' ''''] = 1)"
proof (intro conjI impI)
  assume "extract_all_apts parse bundle_raises write_raises file = Inr written \<and>
          (n, p) \<in> set written"
  then obtain objs g where "p = New_bundle (group_objects objs g)"
    using extract_entries by blast
  then show "distinct (map (\<lambda>obj. dict_get obj ''id'') (payload_objects p))"
    by (simp add: group_objects_ids)
next
  assume a: "length (get_stix_files stix_dir merged_file) \<noteq> 1 \<and>
             merge_all_stix_files bundle_raises' stix_dir merged_file = Inr written' \<and>
             (n', p') \<in> set written'"
  then have "p' = New_bundle (keep_first (\<lambda>obj. dict_get obj ''id'') truthy
          (concat (map load_stix_objects_streaming (get_stix_files stix_dir merged_file))) {})"
    using merge_many_written by blast
  then show "distinct (map (\<lambda>obj. dict_get obj ''id'') (payload_objects p'))"
    by (simp add: keep_first_distinct)
next
  assume a: "obj \<in> set (snd (get_related_objects objects (getattr apt_group ''id'' ''unknown_id''))) \<and>
             getattr obj ''id'' '''' \<noteq> ''''"
  show "length [x \<leftarrow> group_objects objects apt_group.
                  getattr x ''id'' '''' = getattr obj ''id'' ''''] = 1"
    unfolding group_objects_keep_first
    using a by (intro keep_first_one_per_key) auto
qed

text \<open>
  The theorem at a group that reaches \<open>ex_AP1\<close> through two relationships, and at a merge
  of two files that share the id of \<open>ex_Y\<close>.
\<close>

theorem C3_unique_ids_witness:
  "extract_all_apts Some never_raises never_raises
     (Loaded (Json_object (Some [ex_IS1, ex_AP1, ex_R1, ex_R3]))) =
     Inr [(ex_G1_json, New_bundle [ex_IS1, ex_R1, ex_R3, ex_AP1])] \<and>
   distinct (map (\<lambda>obj. dict_get obj ''id'')
     (payload_objects (New_bundle [ex_IS1, ex_R1, ex_R3, ex_AP1]))) \<and>
   length (get_stix_files [ex_file_a, ex_file_b, ex_file_old] ''stix_full.json'') \<noteq> 1 \<and>
   merge_all_stix_files never_raises [ex_file_a, ex_file_b, ex_file_old] ''stix_full.json'' =
     Inr [(''stix_full.json'', New_bundle [ex_X, ex_Y, ex_Z])] \<and>
   distinct (map (\<lambda>obj. dict_get obj ''id'') (payload_objects (New_bundle [ex_X, ex_Y, ex_Z]))) \<and>
   ex_AP1 \<in> set (snd (get_related_objects [ex_IS1, ex_AP1, ex_R1, ex_R3] ex_IS1_id)) \<and>
   length [x \<leftarrow> group_objects [ex_IS1, ex_AP1, ex_R1, ex_R3] ex_IS1.
             getattr x ''id'' '''' = getattr ex_AP1 ''id'' ''''] = 1"
  using C3_unique_ids
    [of Some never_raises never_raises
        "Loaded (Json_object (Some [ex_IS1, ex_AP1, ex_R1, ex_R3]))"
        "[(ex_G1_json, New_bundle [ex_IS1, ex_R1, ex_R3, ex_AP1])]"
        ex_G1_json "New_bundle [ex_IS1, ex_R1, ex_R3, ex_AP1]"
        "[ex_file_a, ex_file_b, ex_file_old]" "''stix_full.json''"
        never_raises "[(''stix_full.json'', New_bundle [ex_X, ex_Y, ex_Z])]"
        "''stix_full.json''" "New_bundle [ex_X, ex_Y, ex_Z]"
        ex_AP1 "[ex_IS1, ex_AP1, ex_R1, ex_R3]" ex_IS1]
  by (simp add: extract_all_apts_def load_stix_data_def hasattr_def getattr_def dict_get_def
        group_filename_def sanitize_def group_objects_def get_related_objects_def Let_def
        merge_all_stix_files_def write_bundle_def get_stix_files_def
        load_stix_objects_streaming_def suffix_to_prefix)

text \<open>
  C3 as stated fails on the copy path. The only candidate file below holds two objects
  with the id of \<open>ex_Y\<close>; the merge copies it to the canonical file, which then holds
  both.
\<close>

theorem C3_copy_path_counterexample:
  "merge_all_stix_files never_raises [ex_file_dup, ex_file_old] ''stix_full.json'' =
     Inr [(''stix_full.json'', File_copy ex_file_dup)] \<and>
   map (\<lambda>obj. dict_get obj ''id'') (payload_objects (File_copy ex_file_dup)) =
     [Some ex_Y_id, Some ex_Y_id]"
  by (simp add: merge_all_stix_files_def get_stix_files_def load_stix_objects_streaming_def
        dict_get_def suffix_to_prefix)

text \<open>
  C9, as amended. In a merge of several files, a raw object whose \<^verbatim>\<open>id\<close> is missing or the
  empty string never survives the deduplication and is in no merged bundle. In the
  extraction, every object of every bundle written has a non-empty id: the guard of the
  assembly loop lets no other object pass. That guard reads the loaded objects, not the
  raw ones of the file: when \<^verbatim>\<open>stix2.parse\<close> makes of a raw object of the file, with or
  without an \<^verbatim>\<open>id\<close>, an intrusion set \<open>g\<close> with a non-empty id, and \<^verbatim>\<open>Bundle\<close> and the write
  succeed for \<open>g\<close>, the bundle of \<open>g\<close> is written with \<open>g\<close> as its first object.
\<close>

theorem C9_objects_without_id:
  "((dict_get obj ''id'' = None \<or> dict_get obj ''id'' = Some '''')
      \<longrightarrow> obj \<notin> set (merge_unique all_objects {} [])) \<and>
   ((dict_get obj ''id'' = None \<or> dict_get obj ''id'' = Some '''') \<and>
    length (get_stix_files stix_dir merged_file) \<noteq> 1 \<and>
    merge_all_stix_files bundle_raises' stix_dir merged_file = Inr written' \<and>
    (n', p') \<in> set written'
      \<longrightarrow> obj \<notin> set (payload_objects p')) \<and>
   (extract_all_apts parse bundle_raises write_raises file_path = Inr written \<and>
    (n, p) \<in> set written \<and> x \<in> set (payload_objects p)
      \<longrightarrow> getattr x ''id'' '''' \<noteq> '''') \<and>
   (load_stix_data parse (Loaded (Json_object (Some raws))) = Inr (objects, skipped) \<and>
    raw \<in> set raws \<and> parse raw = Some g \<and>
    getattr g ''type'' '''' = ''intrusion-set'' \<and> getattr g ''id'' '''' \<noteq> '''' \<and>
    \<not> bundle_raises (group_objects objects g) \<and> \<not> write_raises (group_filename g)
      \<longrightarrow> (\<exists>written rest.
             extract_all_apts parse bundle_raises write_raises
               (Loaded (Json_object (Some raws))) = Inr written \<and>
             (group_filename g, New_bundle (g # rest)) \<in> set written))"
proof (intro conjI impI)
  assume "dict_get obj ''id'' = None \<or> dict_get obj ''id'' = Some ''''"
  then have "\<not> truthy (dict_get obj ''id'')" by auto
  then show "obj \<notin> set (merge_unique all_objects {} [])"
    by (auto simp: merge_unique_keep_first dest: keep_first_ok)
next
  assume a: "(dict_get obj ''id'' = None \<or> dict_get obj ''id'' = Some '''') \<and>
    length (get_stix_files stix_dir merged_file) \<noteq> 1 \<and>
    merge_all_stix_files bundle_raises' stix_dir merged_file = Inr written' \<and>
    (n', p') \<in> set written'"
  then have t: "\<not> truthy (dict_get obj ''id'')" by auto
  from a have "p' = New_bundle (keep_first (\<lambda>obj. dict_get obj ''id'') truthy
          (concat (map load_stix_objects_streaming (get_stix_files stix_dir merged_file))) {})"
    using merge_many_written by blast
  with t show "obj \<notin> set (payload_objects p')"
    by (auto dest: keep_first_ok)
next
  assume a: "extract_all_apts parse bundle_raises write_raises file_path = Inr written \<and>
    (n, p) \<in> set written \<and> x \<in> set (payload_objects p)"
  then obtain objs g where "p = New_bundle (group_objects objs g)"
    using extract_entries by blast
  with a have "x \<in> set (group_objects objs g)" by simp
  then show "getattr x ''id'' '''' \<noteq> ''''"
    by (rule group_objects_have_id)
next
  assume a: "load_stix_data parse (Loaded (Json_object (Some raws))) = Inr (objects, skipped) \<and>
    raw \<in> set raws \<and> parse raw = Some g \<and>
    getattr g ''type'' '''' = ''intrusion-set'' \<and> getattr g ''id'' '''' \<noteq> '''' \<and>
    \<not> bundle_raises (group_objects objects g) \<and> \<not> write_raises (group_filename g)"
  then have l: "load_stix_data parse (Loaded (Json_object (Some raws))) = Inr (objects, skipped)"
    and r: "raw \<in> set raws" "parse raw = Some g"
    and t: "getattr g ''type'' '''' = ''intrusion-set''" and i: "getattr g ''id'' '''' \<noteq> ''''"
    and ok: "\<not> bundle_raises (group_objects objects g)" "\<not> write_raises (group_filename g)"
    by simp_all
  have g: "g \<in> set objects"
    using load_stix_data_member[of parse raws objects skipped raw g] l r intrusion_set_typed[OF t]
    by simp
  obtain written where w: "extract_all_apts parse bundle_raises write_raises
      (Loaded (Json_object (Some raws))) = Inr written"
    using extract_all_apts_loaded[OF l] by blast
  have "(group_filename g, New_bundle (group_objects objects g)) \<in> set written"
    by (rule extract_all_apts_writes[OF l g t ok w])
  moreover obtain rest where "group_objects objects g = g # rest"
    using group_objects_head[OF i] by blast
  ultimately show "\<exists>written rest.
             extract_all_apts parse bundle_raises write_raises
               (Loaded (Json_object (Some raws))) = Inr written \<and>
             (group_filename g, New_bundle (g # rest)) \<in> set written"
    using w by auto
qed

text \<open>
  The theorem at an attack pattern without an id in a merge of two files, and at the
  extraction of a group with one technique from a corpus that parses as it stands.
\<close>

theorem C9_objects_without_id_witness:
  "dict_get ex_no_id ''id'' = None \<and>
   merge_unique [ex_no_id, ex_Z, ex_Y', ex_Z] {} [] = [ex_Z, ex_Y'] \<and>
   length (get_stix_files [ex_file_c, ex_file_b] ''stix_full.json'') \<noteq> 1 \<and>
   merge_all_stix_files never_raises [ex_file_c, ex_file_b] ''stix_full.json'' =
     Inr [(''stix_full.json'', New_bundle [ex_Z, ex_Y'])] \<and>
   ex_no_id \<notin> set (payload_objects (New_bundle [ex_Z, ex_Y'])) \<and>
   load_stix_data Some (Loaded (Json_object (Some [ex_IS1, ex_AP1, ex_R1]))) =
     Inr ([ex_IS1, ex_AP1, ex_R1], 0) \<and>
   group_filename ex_IS1 = ex_G1_json \<and>
   extract_all_apts Some never_raises never_raises
     (Loaded (Json_object (Some [ex_IS1, ex_AP1, ex_R1]))) =
     Inr [(ex_G1_json, New_bundle [ex_IS1, ex_R1, ex_AP1])] \<and>
   getattr ex_AP1 ''id'' '''' \<noteq> ''''"
  using C9_objects_without_id
    [where obj = ex_no_id and all_objects = "[ex_no_id, ex_Z, ex_Y', ex_Z]"
       and stix_dir = "[ex_file_c, ex_file_b]" and merged_file = "''stix_full.json''"
       and bundle_raises' = never_raises
       and written' = "[(''stix_full.json'', New_bundle [ex_Z, ex_Y'])]"
       and n' = "''stix_full.json''" and p' = "New_bundle [ex_Z, ex_Y']"
       and parse = Some and bundle_raises = never_raises and write_raises = never_raises
       and file_path = "Loaded (Json_object (Some [ex_IS1, ex_AP1, ex_R1]))"
       and written = "[(ex_G1_json, New_bundle [ex_IS1, ex_R1, ex_AP1])]"
       and n = ex_G1_json and p = "New_bundle [ex_IS1, ex_R1, ex_AP1]" and x = ex_AP1
       and raws = "[ex_IS1, ex_AP1, ex_R1]" and objects = "[ex_IS1, ex_AP1, ex_R1]"
       and skipped = 0 and raw = ex_IS1 and g = ex_IS1]
  by (simp add: extract_all_apts_def load_stix_data_def hasattr_def getattr_def dict_get_def
        group_filename_def sanitize_def group_objects_def get_related_objects_def Let_def
        merge_all_stix_files_def write_bundle_def get_stix_files_def
        load_stix_objects_streaming_def suffix_to_prefix)

text \<open>
  C9 as stated fails in the extraction. The file below holds a group without an id.
  \<^verbatim>\<open>stix2.parse\<close> gives such an object a generated id, so the loader returns \<open>ex_G0\<close> for
  it, and the extraction writes a bundle for the group, with the group in it: the object
  is not dropped from the output.
\<close>

theorem C9_generated_id_counterexample:
  "dict_get ex_raw_G0 ''id'' = None \<and>
   extract_all_apts (map_of [(ex_raw_G0, ex_G0)]) never_raises never_raises
     (Loaded (Json_object (Some [ex_raw_G0]))) =
     Inr [(ex_G0_json, New_bundle [ex_G0])]"
  by (simp add: extract_all_apts_def load_stix_data_def hasattr_def getattr_def dict_get_def
        group_filename_def sanitize_def group_objects_def get_related_objects_def Let_def)

end
